theory Spec2Isabelle
  imports Complex_Main
begin

section \<open>Python values, errors and the arithmetic the layers use\<close>

text \<open>
  The layers of \<^verbatim>\<open>ravdl/DLOps/layers.py\<close> are thin adapters: they keep shapes and
  node handles and declare operations in an external graph engine. Every exception the
  Python raises (also the implicit ones: a missing attribute, an unpacking of the wrong
  length, an unbound local) is a value of \<open>py_error\<close>; a method returns
  \<open>py_error + 'a\<close>, with \<open>Inl\<close> for the exception.
\<close>

datatype py_error =
    AttributeError | TypeError | ValueError | IndexError | ZeroDivisionError
  | AssertionError | UnboundLocalError | OverflowError

type_synonym handle = nat

text \<open>
  The values that cross the boundary to the graph engine. \<open>PStrOf v\<close> is Python's
  \<^verbatim>\<open>str(v)\<close>, kept symbolic. Floats (\<open>momentum\<close>, \<open>eps\<close>, \<open>p\<close>) are only
  passed through; they are carried as rationals.
\<close>

datatype pyval =
    PNone
  | PInt int
  | PFloat rat
  | PStr string
  | PTuple "int list"
  | PNode handle
  | PDict "(string \<times> pyval) list"
  | PStrOf pyval

text \<open>A shape attribute that may hold \<^verbatim>\<open>None\<close>, and a node handle that may.\<close>

definition shape_val :: "int list option \<Rightarrow> pyval" where
  "shape_val s = (case s of None \<Rightarrow> PNone | Some xs \<Rightarrow> PTuple xs)"

definition node_val :: "handle option \<Rightarrow> pyval" where
  "node_val h = (case h of None \<Rightarrow> PNone | Some n \<Rightarrow> PNode n)"

text \<open>
  The result of a true division. On Python integers \<^verbatim>\<open>a / b\<close> raises
  \<^verbatim>\<open>ZeroDivisionError\<close> for \<open>b = 0\<close>; on a numpy integer it yields \<open>inf\<close> or
  \<open>nan\<close> instead. The finite quotient is the exact rational: the rounding of IEEE
  doubles is not modelled (it is exact for the magnitudes a tensor shape can have).
\<close>

datatype pyfloat = Fin rat | Infinity | NaN

definition py_true_divide :: "int \<Rightarrow> int \<Rightarrow> py_error + pyfloat" where
  "py_true_divide a b =
     (if b = 0 then Inl ZeroDivisionError else Inr (Fin (of_int a / of_int b)))"

definition np_true_divide :: "int \<Rightarrow> int \<Rightarrow> pyfloat" where
  "np_true_divide a b =
     (if b = 0 then (if a = 0 then NaN else Infinity) else Fin (of_int a / of_int b))"

definition float_add :: "pyfloat \<Rightarrow> int \<Rightarrow> pyfloat" where
  "float_add x k = (case x of Fin q \<Rightarrow> Fin (q + of_int k) | Infinity \<Rightarrow> Infinity | NaN \<Rightarrow> NaN)"

text \<open>\<^verbatim>\<open>int(x)\<close> of a float truncates toward zero and refuses \<open>inf\<close> and \<open>nan\<close>.\<close>

definition py_int :: "pyfloat \<Rightarrow> py_error + int" where
  "py_int x =
     (case x of
        Fin q \<Rightarrow> Inr (if 0 \<le> q then \<lfloor>q\<rfloor> else \<lceil>q\<rceil>)
      | Infinity \<Rightarrow> Inl OverflowError
      | NaN \<Rightarrow> Inl ValueError)"

text \<open>\<^verbatim>\<open>x % 1 == 0\<close> on a float: the fractional part is zero.\<close>

definition is_whole :: "pyfloat \<Rightarrow> bool" where
  "is_whole x = (case x of Fin q \<Rightarrow> q - of_int \<lfloor>q\<rfloor> = 0 | Infinity \<Rightarrow> False | NaN \<Rightarrow> False)"

text \<open>\<^verbatim>\<open>xs[i]\<close> for a literal index \<open>i \<ge> 0\<close>.\<close>

definition py_index :: "'a list \<Rightarrow> nat \<Rightarrow> py_error + 'a" where
  "py_index xs i = (if i < length xs then Inr (xs ! i) else Inl IndexError)"

text \<open>
  \<^verbatim>\<open>np.prod\<close> of a tuple of integers (a reduction with \<open>*\<close> from 1) and \<^verbatim>\<open>np.sum\<close>
  of a pair. The integers are unbounded: numpy's fixed-width accumulator is not modelled.
\<close>

definition np_prod :: "int list \<Rightarrow> int" where
  "np_prod xs = foldl (*) 1 xs"

definition np_sum :: "int \<times> int \<Rightarrow> int" where
  "np_sum pr = fst pr + snd pr"

section \<open>The graph engine\<close>

text \<open>
  Modelled from the spec: the external module \<^verbatim>\<open>R\<close> (section 6 of the specification).
  Each declaration call takes an input node, a bundle of named parameters, and returns an
  opaque handle; \<^verbatim>\<open>persist_op(name)\<close> on a handle requests persistence under a name. The
  engine is the log of what was declared and what was asked to persist; a handle is the
  position of its declaration in the log.
\<close>

record decl =
  op :: string
  arg :: pyval
  kwargs :: "(string \<times> pyval) list"

record engine =
  nodes :: "decl list"
  persisted :: "(handle \<times> string) list"

definition declare_node :: "string \<Rightarrow> pyval \<Rightarrow> (string \<times> pyval) list \<Rightarrow> engine \<Rightarrow> handle \<times> engine" where
  "declare_node name x kw g =
     (length (nodes g), g\<lparr>nodes := nodes g @ [\<lparr>op = name, arg = x, kwargs = kw\<rparr>]\<rparr>)"

definition persist_op :: "handle \<Rightarrow> string \<Rightarrow> engine \<Rightarrow> engine" where
  "persist_op h name g = g\<lparr>persisted := persisted g @ [(h, name)]\<rparr>"

text \<open>The optimizer the orchestrator hands to \<^verbatim>\<open>initialize\<close>: only \<^verbatim>\<open>data_dict()\<close> is used.\<close>

record optimizer =
  data_dict :: "(string \<times> pyval) list"

section \<open>The layer classes\<close>

text \<open>
  The attributes every layer class carries. \<open>input_shape = None\<close> is Python's
  \<^verbatim>\<open>None\<close> for the classes whose constructor stores the argument (Dense, Dropout,
  Conv2D, Flatten), and the attribute not being set yet for the classes whose constructor
  does not (BatchNormalization, Activation, MaxPooling2D). \<open>layer_name = None\<close>:
  \<^verbatim>\<open>set_layer_name\<close> has not been called. A handle is \<open>None\<close> until the pass ran.
\<close>

record layer =
  input_shape :: "int list option"
  layer_name :: "string option"
  trainable :: bool
  forward_pass :: "handle option"
  backward_pass :: "handle option"

text \<open>
  \<open>optimizer\<close> and the shadows \<open>np_W\<close>, \<open>np_w0\<close>, \<open>np_gamma\<close>, \<open>np_beta\<close> are
  \<open>None\<close> until \<^verbatim>\<open>initialize\<close> sets them. A shadow array is modelled by its shape (its
  entries are random or constant and no method reads them).
\<close>

record dense = layer +
  n_units :: int
  layer_input :: pyval
  optimizer :: "optimizer option"
  np_W :: "int list option"
  np_w0 :: "int list option"

record batchnormalization = layer +
  momentum :: rat
  float_momentum :: rat
  eps :: rat
  float_eps :: rat
  running_mean :: pyval
  running_var :: pyval
  optimizer :: "optimizer option"
  np_gamma :: "int list option"
  np_beta :: "int list option"

record dropout = layer +
  p :: rat
  mask :: pyval
  n_units :: pyval
  pass_through :: bool

record activation = layer +
  activation_name :: string
  layer_input :: "pyval option"

record conv2d = layer +
  n_filters :: int
  filter_shape :: "int list"
  padding :: string
  stride :: int
  W :: pyval
  w0 :: pyval
  optimizer :: "optimizer option"
  np_W :: "int list option"
  np_w0 :: "int list option"
  layer_input :: "pyval option"

record flatten = layer +
  prev_shape :: pyval
  prev_input :: "pyval option"

record maxpooling2d = layer +
  pool_shape :: "int list"
  stride :: int
  padding_data :: "(string \<times> pyval) list"

subsection \<open>Constructors\<close>

definition Dense_init :: "int \<Rightarrow> int list option \<Rightarrow> dense" where
  "Dense_init units shape =
     \<lparr>input_shape = shape, layer_name = None, trainable = True,
      forward_pass = None, backward_pass = None,
      dense.n_units = units, dense.layer_input = PNone, dense.optimizer = None,
      dense.np_W = None, dense.np_w0 = None\<rparr>"

definition BatchNormalization_init :: "rat \<Rightarrow> rat \<Rightarrow> batchnormalization" where
  "BatchNormalization_init mom epsilon =
     \<lparr>input_shape = None, layer_name = None, trainable = True,
      forward_pass = None, backward_pass = None,
      momentum = mom, float_momentum = mom, eps = epsilon, float_eps = epsilon,
      running_mean = PNone, running_var = PNone,
      batchnormalization.optimizer = None, np_gamma = None, np_beta = None\<rparr>"

definition Dropout_init :: "rat \<Rightarrow> dropout" where
  "Dropout_init prob =
     \<lparr>input_shape = None, layer_name = None, trainable = True,
      forward_pass = None, backward_pass = None,
      p = prob, mask = PNone, dropout.n_units = PNone, pass_through = True\<rparr>"

definition Activation_init :: "string \<Rightarrow> activation" where
  "Activation_init name =
     \<lparr>input_shape = None, layer_name = None, trainable = True,
      forward_pass = None, backward_pass = None,
      activation_name = name, activation.layer_input = None\<rparr>"



definition MaxPooling2D_init :: "int list \<Rightarrow> int \<Rightarrow> string \<Rightarrow> maxpooling2d" where
  "MaxPooling2D_init pshape strd pad =
     \<lparr>input_shape = None, layer_name = None, trainable = True,
      forward_pass = None, backward_pass = None,
      pool_shape = pshape, maxpooling2d.stride = strd,
      padding_data = [(''padding'', PStr pad)]\<rparr>"

subsection \<open>The methods of the base class\<close>

definition set_input_shape :: "'a layer_scheme \<Rightarrow> int list \<Rightarrow> 'a layer_scheme" where
  "set_input_shape L shape = L\<lparr>input_shape := Some shape\<rparr>"

text \<open>\<^verbatim>\<open>set_layer_name(name)\<close>; without a name the class name is stored.\<close>

definition set_layer_name :: "string \<Rightarrow> 'a layer_scheme \<Rightarrow> string option \<Rightarrow> 'a layer_scheme" where
  "set_layer_name class_name L name =
     (case name of Some n \<Rightarrow> L\<lparr>layer_name := Some n\<rparr> | None \<Rightarrow> L\<lparr>layer_name := Some class_name\<rparr>)"

section \<open>Shape arithmetic\<close>

subsection \<open>Conv2D\<close>

text \<open>
  Modelled from the spec: \<^verbatim>\<open>determine_padding\<close> of \<^verbatim>\<open>utils/data_operations.py\<close>, which
  is not among the sources. Section 4.6: for \<^verbatim>\<open>"same"\<close> the total padding of a dimension
  is \<open>filter_dim - 1\<close>, split before/after as floor/ceil; for \<^verbatim>\<open>"valid"\<close> it is 0. The
  spec defines no result for another policy or for a filter shape that is not a pair; the
  model returns an error there.
\<close>

definition determine_padding :: "int list \<Rightarrow> string \<Rightarrow> py_error + ((int \<times> int) \<times> (int \<times> int))" where
  "determine_padding fshape policy =
     (if policy = ''valid'' then Inr ((0, 0), (0, 0))
      else if policy = ''same'' then
        (case fshape of
           [filter_height, filter_width] \<Rightarrow>
             Inr (((filter_height - 1) div 2, - ((- (filter_height - 1)) div 2)),
                  ((filter_width - 1) div 2, - ((- (filter_width - 1)) div 2)))
         | _ \<Rightarrow> Inl ValueError)
      else Inl ValueError)"

text \<open>
  \<^verbatim>\<open>Conv2D.output_shape\<close>. The padding sums are numpy integers, so the divisions are
  numpy's (no \<^verbatim>\<open>ZeroDivisionError\<close>); both quotients are computed before the first
  \<^verbatim>\<open>int(...)\<close>.
\<close>

definition Conv2D_output_shape :: "conv2d \<Rightarrow> py_error + pyval" where
  "Conv2D_output_shape L =
     (case input_shape L of
        None \<Rightarrow> Inl TypeError
      | Some [channels, height, width] \<Rightarrow>
          (case determine_padding (filter_shape L) (padding L) of
             Inl e \<Rightarrow> Inl e
           | Inr (pad_h, pad_w) \<Rightarrow>
               (case py_index (filter_shape L) 0 of
                  Inl e \<Rightarrow> Inl e
                | Inr fh \<Rightarrow>
                    (let output_height =
                           float_add (np_true_divide (height + np_sum pad_h - fh) (conv2d.stride L)) 1
                     in case py_index (filter_shape L) 1 of
                          Inl e \<Rightarrow> Inl e
                        | Inr fw \<Rightarrow>
                            (let output_width =
                                   float_add (np_true_divide (width + np_sum pad_w - fw) (conv2d.stride L)) 1
                             in case py_int output_height of
                                  Inl e \<Rightarrow> Inl e
                                | Inr oh \<Rightarrow>
                                    (case py_int output_width of
                                       Inl e \<Rightarrow> Inl e
                                     | Inr ow \<Rightarrow> Inr (PTuple [n_filters L, oh, ow]))))))
      | Some _ \<Rightarrow> Inl ValueError)"


subsection \<open>MaxPooling2D\<close>

text \<open>
  \<^verbatim>\<open>MaxPooling2D.output_shape\<close>. The operands are Python integers, so a zero stride
  raises \<^verbatim>\<open>ZeroDivisionError\<close>; the two assertions come after both quotients.
\<close>

definition MaxPooling2D_output_shape :: "maxpooling2d \<Rightarrow> py_error + pyval" where
  "MaxPooling2D_output_shape L =
     (case input_shape L of
        None \<Rightarrow> Inl AttributeError
      | Some [channels, height, width] \<Rightarrow>
          (case py_index (pool_shape L) 0 of
             Inl e \<Rightarrow> Inl e
           | Inr ph \<Rightarrow>
               (case py_true_divide (height - ph) (maxpooling2d.stride L) of
                  Inl e \<Rightarrow> Inl e
                | Inr qh \<Rightarrow>
                    (let out_height = float_add qh 1
                     in case py_index (pool_shape L) 1 of
                          Inl e \<Rightarrow> Inl e
                        | Inr pw \<Rightarrow>
                            (case py_true_divide (width - pw) (maxpooling2d.stride L) of
                               Inl e \<Rightarrow> Inl e
                             | Inr qw \<Rightarrow>
                                 (let out_width = float_add qw 1
                                  in if \<not> is_whole out_height then Inl AssertionError
                                     else if \<not> is_whole out_width then Inl AssertionError
                                     else
                                       (case py_int out_height of
                                          Inl e \<Rightarrow> Inl e
                                        | Inr oh \<Rightarrow>
                                            (case py_int out_width of
                                               Inl e \<Rightarrow> Inl e
                                             | Inr ow \<Rightarrow> Inr (PTuple [channels, oh, ow]))))))))
      | Some _ \<Rightarrow> Inl ValueError)"

subsection \<open>The other classes\<close>

definition Dense_output_shape :: "dense \<Rightarrow> py_error + pyval" where
  "Dense_output_shape L = Inr (PTuple [dense.n_units L])"

definition BatchNormalization_output_shape :: "batchnormalization \<Rightarrow> py_error + pyval" where
  "BatchNormalization_output_shape L =
     (case input_shape L of None \<Rightarrow> Inl AttributeError | Some s \<Rightarrow> Inr (PTuple s))"

definition Dropout_output_shape :: "dropout \<Rightarrow> py_error + pyval" where
  "Dropout_output_shape L = Inr (shape_val (input_shape L))"

definition Activation_output_shape :: "activation \<Rightarrow> py_error + pyval" where
  "Activation_output_shape L =
     (case input_shape L of None \<Rightarrow> Inl AttributeError | Some s \<Rightarrow> Inr (PTuple s))"

text \<open>\<^verbatim>\<open>(int(np.prod(self.input_shape)),)\<close>; \<^verbatim>\<open>int(None)\<close> is a \<^verbatim>\<open>TypeError\<close>.\<close>

definition Flatten_output_shape :: "flatten \<Rightarrow> py_error + pyval" where
  "Flatten_output_shape L =
     (case input_shape L of None \<Rightarrow> Inl TypeError | Some s \<Rightarrow> Inr (PTuple [np_prod s]))"

section \<open>Initialisation and parameter counts\<close>






section \<open>Declaring graph nodes\<close>

text \<open>
  A pass returns its outcome, the layer as the call left it, and the engine as the call
  left it, also when it raises. The flags cross the boundary as strings.
\<close>

definition py_bool_str :: "bool \<Rightarrow> string" where
  "py_bool_str b = (if b then ''True'' else ''False'')"

subsection \<open>Forward declarations\<close>

definition Dense_forward_pass ::
    "dense \<Rightarrow> engine \<Rightarrow> pyval \<Rightarrow> string \<Rightarrow> bool \<Rightarrow> (py_error + handle) \<times> dense \<times> engine" where
  "Dense_forward_pass L g X input_layer training =
     (let L1 = L\<lparr>dense.layer_input := X\<rparr>;
          (h, g') = declare_node ''forward_pass_dense'' X
                      [(''n_units'', PInt (dense.n_units L1)),
                       (''input_shape'', shape_val (input_shape L1)),
                       (''data'', node_val (backward_pass L1)),
                       (''input_layer'', PStr input_layer)] g
      in (Inr h, L1\<lparr>forward_pass := Some h\<rparr>, g'))"

definition BatchNormalization_forward_pass ::
    "batchnormalization \<Rightarrow> engine \<Rightarrow> pyval \<Rightarrow> string \<Rightarrow> bool
       \<Rightarrow> (py_error + handle) \<times> batchnormalization \<times> engine" where
  "BatchNormalization_forward_pass L g X input_layer training =
     (let training_str = (if training then ''True'' else ''False'');
          trainable_str = (if trainable L then ''True'' else ''False'')
      in case input_shape L of
           None \<Rightarrow> (Inl AttributeError, L, g)
         | Some s \<Rightarrow>
             (let (h, g') = declare_node ''forward_pass_batchnorm'' X
                              [(''input_shape'', PTuple s),
                               (''momentum'', PFloat (momentum L)),
                               (''eps'', PFloat (eps L)),
                               (''training'', PStr training_str),
                               (''trainable'', PStr trainable_str),
                               (''data'', node_val (backward_pass L)),
                               (''input_layer'', PStr input_layer)] g
              in (Inr h, L\<lparr>forward_pass := Some h\<rparr>, g')))"

definition Dropout_forward_pass ::
    "dropout \<Rightarrow> engine \<Rightarrow> pyval \<Rightarrow> string \<Rightarrow> bool \<Rightarrow> (py_error + handle) \<times> dropout \<times> engine" where
  "Dropout_forward_pass L g X input_layer training =
     (let training_str = (if training then ''True'' else ''False'');
          (h, g') = declare_node ''forward_pass_dropout'' X
                      [(''p'', PFloat (p L)),
                       (''training'', PStr training_str),
                       (''input_layer'', PStr input_layer)] g
      in (Inr h, L\<lparr>forward_pass := Some h\<rparr>, g'))"

definition Activation_forward_pass ::
    "activation \<Rightarrow> engine \<Rightarrow> pyval \<Rightarrow> string \<Rightarrow> bool \<Rightarrow> (py_error + handle) \<times> activation \<times> engine" where
  "Activation_forward_pass L g X input_layer training =
     (let L1 = L\<lparr>activation.layer_input := Some X\<rparr>;
          (h, g') = declare_node ''forward_pass_activation'' X
                      [(''act_data'', PStrOf (PDict [(''name'', PStr (activation_name L1))])),
                       (''input_layer'', PStr input_layer)] g
      in (Inr h, L1\<lparr>forward_pass := Some h\<rparr>, g'))"

definition Conv2D_forward_pass ::
    "conv2d \<Rightarrow> engine \<Rightarrow> pyval \<Rightarrow> string \<Rightarrow> bool \<Rightarrow> (py_error + handle) \<times> conv2d \<times> engine" where
  "Conv2D_forward_pass L g X input_layer training =
     (let L1 = L\<lparr>conv2d.layer_input := Some X\<rparr>;
          (h, g') = declare_node ''forward_pass_conv2d'' X
                      [(''input_shape'', shape_val (input_shape L1)),
                       (''n_filters'', PInt (n_filters L1)),
                       (''filter_shape'', PTuple (filter_shape L1)),
                       (''stride'', PInt (conv2d.stride L1)),
                       (''padding_data'', PStrOf (PDict [(''padding'', PStr (padding L1))])),
                       (''data'', node_val (backward_pass L1)),
                       (''input_layer'', PStr input_layer)] g
      in (Inr h, L1\<lparr>forward_pass := Some h\<rparr>, g'))"

definition Flatten_forward_pass ::
    "flatten \<Rightarrow> engine \<Rightarrow> pyval \<Rightarrow> string \<Rightarrow> bool \<Rightarrow> (py_error + handle) \<times> flatten \<times> engine" where
  "Flatten_forward_pass L g X input_layer training =
     (let L1 = L\<lparr>prev_input := Some X\<rparr>;
          (h, g') = declare_node ''forward_pass_flatten'' X
                      [(''input_layer'', PStr input_layer)] g
      in (Inr h, L1\<lparr>forward_pass := Some h\<rparr>, g'))"

definition MaxPooling2D_forward_pass ::
    "maxpooling2d \<Rightarrow> engine \<Rightarrow> pyval \<Rightarrow> string \<Rightarrow> bool
       \<Rightarrow> (py_error + handle) \<times> maxpooling2d \<times> engine" where
  "MaxPooling2D_forward_pass L g X input_layer training =
     (case input_shape L of
        None \<Rightarrow> (Inl AttributeError, L, g)
      | Some s \<Rightarrow>
          (let (h, g') = declare_node ''forward_pass_maxpool2d'' X
                           [(''input_shape'', PTuple s),
                            (''pool_shape'', PTuple (pool_shape L)),
                            (''stride'', PInt (maxpooling2d.stride L)),
                            (''padding_data'', PStrOf (PDict (padding_data L))),
                            (''input_layer'', PStr input_layer)] g
           in (Inr h, L\<lparr>forward_pass := Some h\<rparr>, g')))"

subsection \<open>Backward declarations\<close>

text \<open>
  \<^verbatim>\<open>Dense._backward_pass\<close>: the declaration sits under \<^verbatim>\<open>if self.trainable\<close>; the
  stored handle is returned either way. \<^verbatim>\<open>self.optimizer\<close> is read while the arguments
  are evaluated, before anything is declared.
\<close>

definition Dense_backward_pass ::
    "dense \<Rightarrow> engine \<Rightarrow> pyval \<Rightarrow> string \<Rightarrow> (py_error + pyval) \<times> dense \<times> engine" where
  "Dense_backward_pass L g loss_grad input_layer =
     (if trainable L then
        (case dense.optimizer L of
           None \<Rightarrow> (Inl AttributeError, L, g)
         | Some opt \<Rightarrow>
             (let (h, g') = declare_node ''backward_pass_dense'' loss_grad
                              [(''layer_input'', dense.layer_input L),
                               (''optimizer'', PDict (data_dict opt)),
                               (''data'', node_val (forward_pass L)),
                               (''input_layer'', PStr input_layer)] g;
                  L1 = L\<lparr>backward_pass := Some h\<rparr>
              in (Inr (node_val (backward_pass L1)), L1, g')))
      else (Inr (node_val (backward_pass L)), L, g))"


subsection \<open>Persisting weights\<close>

text \<open>
  The body shared by \<^verbatim>\<open>Dense\<close>, \<^verbatim>\<open>BatchNormalization\<close> and \<^verbatim>\<open>Conv2D\<close>: two
  \<^verbatim>\<open>persist_op\<close> requests, the forward handle first. A handle that is still \<^verbatim>\<open>None\<close>
  has no \<^verbatim>\<open>persist_op\<close>; the first request stays made when the second raises.
\<close>

definition persist_both :: "'a layer_scheme \<Rightarrow> engine \<Rightarrow> (py_error + unit) \<times> engine" where
  "persist_both L g =
     (case forward_pass L of
        None \<Rightarrow> (Inl AttributeError, g)
      | Some f \<Rightarrow>
          (case layer_name L of
             None \<Rightarrow> (Inl AttributeError, g)
           | Some name \<Rightarrow>
               (let g1 = persist_op f (name @ ''_forward_pass'') g
                in case backward_pass L of
                     None \<Rightarrow> (Inl AttributeError, g1)
                   | Some b \<Rightarrow> (Inr (), persist_op b (name @ ''_backward_pass'') g1))))"

definition Dense_persist_weights :: "dense \<Rightarrow> engine \<Rightarrow> (py_error + unit) \<times> engine" where
  "Dense_persist_weights L g = persist_both L g"

definition BatchNormalization_persist_weights ::
    "batchnormalization \<Rightarrow> engine \<Rightarrow> (py_error + unit) \<times> engine" where
  "BatchNormalization_persist_weights L g = persist_both L g"

definition Conv2D_persist_weights :: "conv2d \<Rightarrow> engine \<Rightarrow> (py_error + unit) \<times> engine" where
  "Conv2D_persist_weights L g = persist_both L g"

definition Dropout_persist_weights :: "dropout \<Rightarrow> engine \<Rightarrow> (py_error + unit) \<times> engine" where
  "Dropout_persist_weights L g = (Inr (), g)"

definition Activation_persist_weights :: "activation \<Rightarrow> engine \<Rightarrow> (py_error + unit) \<times> engine" where
  "Activation_persist_weights L g = (Inr (), g)"

definition Flatten_persist_weights :: "flatten \<Rightarrow> engine \<Rightarrow> (py_error + unit) \<times> engine" where
  "Flatten_persist_weights L g = (Inr (), g)"

section \<open>Method dispatch over the layer classes\<close>

text \<open>
  A layer of a model is an instance of one of the seven classes; a method call is looked
  up in the instance's class, then in \<^verbatim>\<open>Layer\<close>. \<^verbatim>\<open>MaxPooling2D\<close> defines no
  \<^verbatim>\<open>persist_weights\<close> and neither does \<^verbatim>\<open>Layer\<close>, so the lookup raises
  \<^verbatim>\<open>AttributeError\<close>.
\<close>

datatype any_layer =
    Dense dense
  | BatchNormalization batchnormalization
  | Dropout dropout
  | Activation activation
  | Conv2D conv2d
  | Flatten flatten
  | MaxPooling2D maxpooling2d

fun output_shape :: "any_layer \<Rightarrow> py_error + pyval" where
  "output_shape (Dense L) = Dense_output_shape L"
| "output_shape (BatchNormalization L) = BatchNormalization_output_shape L"
| "output_shape (Dropout L) = Dropout_output_shape L"
| "output_shape (Activation L) = Activation_output_shape L"
| "output_shape (Conv2D L) = Conv2D_output_shape L"
| "output_shape (Flatten L) = Flatten_output_shape L"
| "output_shape (MaxPooling2D L) = MaxPooling2D_output_shape L"

fun persist_weights :: "any_layer \<Rightarrow> engine \<Rightarrow> (py_error + unit) \<times> engine" where
  "persist_weights (Dense L) g = Dense_persist_weights L g"
| "persist_weights (BatchNormalization L) g = BatchNormalization_persist_weights L g"
| "persist_weights (Dropout L) g = Dropout_persist_weights L g"
| "persist_weights (Activation L) g = Activation_persist_weights L g"
| "persist_weights (Conv2D L) g = Conv2D_persist_weights L g"
| "persist_weights (Flatten L) g = Flatten_persist_weights L g"
| "persist_weights (MaxPooling2D L) g = (Inl AttributeError, g)"

text \<open>
  \<^verbatim>\<open>layer._forward_pass(X, input_layer=..., training=...)\<close>, dispatched on the class.
\<close>

fun forward_pass_call ::
    "any_layer \<Rightarrow> engine \<Rightarrow> pyval \<Rightarrow> string \<Rightarrow> bool
       \<Rightarrow> (py_error + handle) \<times> any_layer \<times> engine" where
  "forward_pass_call (Dense L) g X il tr =
     (case Dense_forward_pass L g X il tr of (r, L', g') \<Rightarrow> (r, Dense L', g'))"
| "forward_pass_call (BatchNormalization L) g X il tr =
     (case BatchNormalization_forward_pass L g X il tr of (r, L', g') \<Rightarrow> (r, BatchNormalization L', g'))"
| "forward_pass_call (Dropout L) g X il tr =
     (case Dropout_forward_pass L g X il tr of (r, L', g') \<Rightarrow> (r, Dropout L', g'))"
| "forward_pass_call (Activation L) g X il tr =
     (case Activation_forward_pass L g X il tr of (r, L', g') \<Rightarrow> (r, Activation L', g'))"
| "forward_pass_call (Conv2D L) g X il tr =
     (case Conv2D_forward_pass L g X il tr of (r, L', g') \<Rightarrow> (r, Conv2D L', g'))"
| "forward_pass_call (Flatten L) g X il tr =
     (case Flatten_forward_pass L g X il tr of (r, L', g') \<Rightarrow> (r, Flatten L', g'))"
| "forward_pass_call (MaxPooling2D L) g X il tr =
     (case MaxPooling2D_forward_pass L g X il tr of (r, L', g') \<Rightarrow> (r, MaxPooling2D L', g'))"

text \<open>
  The configuration of a layer: its class, the constructor's parameters and
  \<open>input_shape\<close>. Handles, names, the \<open>trainable\<close> flag, cached inputs, the optimizer
  and the shadows are not part of it.
\<close>

fun same_config :: "any_layer \<Rightarrow> any_layer \<Rightarrow> bool" where
  "same_config (Dense a) (Dense b) =
     (input_shape a = input_shape b \<and> dense.n_units a = dense.n_units b)"
| "same_config (BatchNormalization a) (BatchNormalization b) =
     (input_shape a = input_shape b \<and> momentum a = momentum b \<and> eps a = eps b)"
| "same_config (Dropout a) (Dropout b) =
     (input_shape a = input_shape b \<and> p a = p b)"
| "same_config (Activation a) (Activation b) =
     (input_shape a = input_shape b \<and> activation_name a = activation_name b)"
| "same_config (Conv2D a) (Conv2D b) =
     (input_shape a = input_shape b \<and> n_filters a = n_filters b
      \<and> filter_shape a = filter_shape b \<and> padding a = padding b
      \<and> conv2d.stride a = conv2d.stride b)"
| "same_config (Flatten a) (Flatten b) = (input_shape a = input_shape b)"
| "same_config (MaxPooling2D a) (MaxPooling2D b) =
     (input_shape a = input_shape b \<and> pool_shape a = pool_shape b
      \<and> maxpooling2d.stride a = maxpooling2d.stride b \<and> padding_data a = padding_data b)"
| "same_config _ _ = False"

text \<open>The engine before anything was declared, and an optimizer with an empty state bundle.\<close>

definition empty_engine :: engine where
  "empty_engine = \<lparr>nodes = [], persisted = []\<rparr>"

definition plain_optimizer :: optimizer where
  "plain_optimizer = \<lparr>data_dict = []\<rparr>"

section \<open>Properties of the shape arithmetic\<close>

subsection \<open>Conv2D\<close>






subsection \<open>MaxPooling2D\<close>





subsection \<open>Flatten\<close>





subsection \<open>Repeated calls\<close>

lemma Conv2D_output_shape_fields:
  assumes "input_shape a = input_shape b" and "n_filters a = n_filters b"
    and "filter_shape a = filter_shape b" and "padding a = padding b"
    and "conv2d.stride a = conv2d.stride b"
  shows "Conv2D_output_shape a = Conv2D_output_shape b"
  unfolding Conv2D_output_shape_def assms by (rule refl)

lemma MaxPooling2D_output_shape_fields:
  assumes "input_shape a = input_shape b" and "pool_shape a = pool_shape b"
    and "maxpooling2d.stride a = maxpooling2d.stride b"
  shows "MaxPooling2D_output_shape a = MaxPooling2D_output_shape b"
  unfolding MaxPooling2D_output_shape_def assms by (rule refl)

text \<open>
  C9. \<^verbatim>\<open>output_shape()\<close> assigns no attribute and reads only configuration fields: for
  every layer class, two states of a layer that agree on \<open>input_shape\<close> and on the
  constructor's parameters give the same result (the same shape, or the same exception),
  whatever the handles, names, flags, cached inputs and shadows are. So repeated calls
  without a change of configuration return identical results.
\<close>

theorem output_shape_config_only:
  assumes "same_config A B"
  shows "output_shape A = output_shape B"
proof (cases A)
  case (Dense a)
  then show ?thesis using assms by (cases B) (simp_all add: Dense_output_shape_def)
next
  case (BatchNormalization a)
  then show ?thesis using assms
    by (cases B) (simp_all add: BatchNormalization_output_shape_def)
next
  case (Dropout a)
  then show ?thesis using assms by (cases B) (simp_all add: Dropout_output_shape_def)
next
  case (Activation a)
  then show ?thesis using assms by (cases B) (simp_all add: Activation_output_shape_def)
next
  case (Conv2D a)
  then show ?thesis using assms
    by (cases B) (auto intro: Conv2D_output_shape_fields)
next
  case (Flatten a)
  then show ?thesis using assms by (cases B) (simp_all add: Flatten_output_shape_def)
next
  case (MaxPooling2D a)
  then show ?thesis using assms
    by (cases B) (auto intro: MaxPooling2D_output_shape_fields)
qed

text \<open>A pooling layer before and after a pass stored handles and a name was set.\<close>

theorem output_shape_config_only_witness:
  "same_config (MaxPooling2D (set_input_shape (MaxPooling2D_init [2, 2] 2 ''same'') [3, 32, 32]))
     (MaxPooling2D ((set_input_shape (MaxPooling2D_init [2, 2] 2 ''same'') [3, 32, 32])
        \<lparr>layer_name := Some ''pool'', forward_pass := Some 4, backward_pass := Some 9\<rparr>))
   \<and> output_shape (MaxPooling2D (set_input_shape (MaxPooling2D_init [2, 2] 2 ''same'') [3, 32, 32]))
     = output_shape (MaxPooling2D ((set_input_shape (MaxPooling2D_init [2, 2] 2 ''same'') [3, 32, 32])
        \<lparr>layer_name := Some ''pool'', forward_pass := Some 4, backward_pass := Some 9\<rparr>))"
proof -
  have h: "same_config (MaxPooling2D (set_input_shape (MaxPooling2D_init [2, 2] 2 ''same'') [3, 32, 32]))
     (MaxPooling2D ((set_input_shape (MaxPooling2D_init [2, 2] 2 ''same'') [3, 32, 32])
        \<lparr>layer_name := Some ''pool'', forward_pass := Some 4, backward_pass := Some 9\<rparr>))"
    by (simp add: MaxPooling2D_init_def set_input_shape_def)
  show ?thesis using h output_shape_config_only [OF h] by simp
qed

section \<open>Properties of initialisation\<close>





section \<open>Properties of the declarations\<close>

subsection \<open>Flags of the forward declarations\<close>

text \<open>
  C8 (as amended). For every boolean \<open>training\<close> argument, every forward declaration
  that a layer makes adds one node to the graph, and: \<^verbatim>\<open>BatchNormalization\<close> passes
  \<open>training\<close> and \<open>trainable\<close> as the literal strings \<^verbatim>\<open>"True"\<close>/\<^verbatim>\<open>"False"\<close> (the
  string \<^verbatim>\<open>"True"\<close> exactly when the flag is true); \<^verbatim>\<open>Dropout\<close> passes \<open>training\<close>
  so and no \<open>trainable\<close>; \<^verbatim>\<open>Dense\<close>, \<^verbatim>\<open>Activation\<close>, \<^verbatim>\<open>Conv2D\<close>, \<^verbatim>\<open>Flatten\<close> and
  \<^verbatim>\<open>MaxPooling2D\<close> pass neither flag.
\<close>

theorem forward_pass_flags:
  assumes call: "forward_pass_call A g X il training = (Inr h, A', g')"
  shows "\<exists>d. nodes g' = nodes g @ [d]
           \<and> map_of (kwargs d) ''training''
               = (case A of BatchNormalization L \<Rightarrow> Some (PStr (py_bool_str training))
                          | Dropout L \<Rightarrow> Some (PStr (py_bool_str training))
                          | _ \<Rightarrow> None)
           \<and> map_of (kwargs d) ''trainable''
               = (case A of BatchNormalization L \<Rightarrow> Some (PStr (py_bool_str (trainable L)))
                          | _ \<Rightarrow> None)"
proof (cases A)
  case (Dense L)
  then show ?thesis using call
    by (auto simp: Dense_forward_pass_def declare_node_def Let_def)
next
  case (BatchNormalization L)
  then show ?thesis using call
    by (auto simp: BatchNormalization_forward_pass_def declare_node_def Let_def py_bool_str_def
          split: option.splits)
next
  case (Dropout L)
  then show ?thesis using call
    by (auto simp: Dropout_forward_pass_def declare_node_def Let_def py_bool_str_def)
next
  case (Activation L)
  then show ?thesis using call
    by (auto simp: Activation_forward_pass_def declare_node_def Let_def)
next
  case (Conv2D L)
  then show ?thesis using call
    by (auto simp: Conv2D_forward_pass_def declare_node_def Let_def)
next
  case (Flatten L)
  then show ?thesis using call
    by (auto simp: Flatten_forward_pass_def declare_node_def Let_def)
next
  case (MaxPooling2D L)
  then show ?thesis using call
    by (auto simp: MaxPooling2D_forward_pass_def declare_node_def Let_def split: option.splits)
qed

text \<open>A batch normalisation declared for inference: \<^verbatim>\<open>training="False"\<close>, \<^verbatim>\<open>trainable="True"\<close>.\<close>

theorem forward_pass_flags_witness:
  "forward_pass_call
      (BatchNormalization (set_input_shape (BatchNormalization_init (99 / 100) (1 / 100)) [8]))
      empty_engine (PNode 0) ''False'' False
    = (Inr 0,
       BatchNormalization
         ((set_input_shape (BatchNormalization_init (99 / 100) (1 / 100)) [8])\<lparr>forward_pass := Some 0\<rparr>),
       \<lparr>nodes = [\<lparr>op = ''forward_pass_batchnorm'', arg = PNode 0,
                     kwargs = [(''input_shape'', PTuple [8]), (''momentum'', PFloat (99 / 100)),
                               (''eps'', PFloat (1 / 100)), (''training'', PStr ''False''),
                               (''trainable'', PStr ''True''), (''data'', PNone),
                               (''input_layer'', PStr ''False'')]\<rparr>],
          persisted = []\<rparr>)
   \<and> (\<exists>d. [\<lparr>op = ''forward_pass_batchnorm'', arg = PNode 0,
                     kwargs = [(''input_shape'', PTuple [8]), (''momentum'', PFloat (99 / 100)),
                               (''eps'', PFloat (1 / 100)), (''training'', PStr ''False''),
                               (''trainable'', PStr ''True''), (''data'', PNone),
                               (''input_layer'', PStr ''False'')]\<rparr>] = [d]
          \<and> map_of (kwargs d) ''training'' = Some (PStr ''False'')
          \<and> map_of (kwargs d) ''trainable'' = Some (PStr ''True''))"
proof -
  have h: "forward_pass_call
      (BatchNormalization (set_input_shape (BatchNormalization_init (99 / 100) (1 / 100)) [8]))
      empty_engine (PNode 0) ''False'' False
    = (Inr 0,
       BatchNormalization
         ((set_input_shape (BatchNormalization_init (99 / 100) (1 / 100)) [8])\<lparr>forward_pass := Some 0\<rparr>),
       \<lparr>nodes = [\<lparr>op = ''forward_pass_batchnorm'', arg = PNode 0,
                     kwargs = [(''input_shape'', PTuple [8]), (''momentum'', PFloat (99 / 100)),
                               (''eps'', PFloat (1 / 100)), (''training'', PStr ''False''),
                               (''trainable'', PStr ''True''), (''data'', PNone),
                               (''input_layer'', PStr ''False'')]\<rparr>],
          persisted = []\<rparr>)"
    by (simp add: BatchNormalization_forward_pass_def BatchNormalization_init_def
          set_input_shape_def empty_engine_def declare_node_def node_val_def)
  show ?thesis
    using h forward_pass_flags [OF h]
    by (simp add: py_bool_str_def BatchNormalization_init_def set_input_shape_def empty_engine_def)
qed

text \<open>
  The forward declaration of a Dense layer called with \<open>training = True\<close>: its named
  parameters are \<open>n_units\<close>, \<open>input_shape\<close>, \<open>data\<close> and \<open>input_layer\<close>; there is no
  \<open>training\<close> and no \<open>trainable\<close> among them.
\<close>

theorem Dense_forward_pass_no_flags_counterexample:
  "forward_pass_call (Dense (Dense_init 4 (Some [3]))) empty_engine (PNode 0) ''False'' True
     = (Inr 0,
        Dense ((Dense_init 4 (Some [3]))\<lparr>forward_pass := Some 0, dense.layer_input := PNode 0\<rparr>),
        \<lparr>nodes = [\<lparr>op = ''forward_pass_dense'', arg = PNode 0,
                      kwargs = [(''n_units'', PInt 4), (''input_shape'', PTuple [3]),
                                (''data'', PNone), (''input_layer'', PStr ''False'')]\<rparr>],
           persisted = []\<rparr>)
   \<and> map_of [(''n_units'', PInt 4), (''input_shape'', PTuple [3]),
              (''data'', PNone), (''input_layer'', PStr ''False'')] ''training'' = None
   \<and> map_of [(''n_units'', PInt 4), (''input_shape'', PTuple [3]),
              (''data'', PNone), (''input_layer'', PStr ''False'')] ''trainable'' = None"
  by (simp add: Dense_forward_pass_def Dense_init_def declare_node_def shape_val_def node_val_def
        empty_engine_def)

subsection \<open>The backward declaration of Dense\<close>

text \<open>
  C6 (as amended). For a Dense layer whose optimizer has been set by \<^verbatim>\<open>initialize\<close>,
  \<^verbatim>\<open>_backward_pass\<close> returns, and it declares a backward graph node if and only if
  \<open>trainable\<close> is true (the new handle is then stored in \<open>backward_pass\<close> and returned).
  For every Dense layer, when \<open>trainable\<close> is false no node is declared, the stored
  \<open>backward_pass\<close> is returned, and the layer and the engine are left unchanged.
\<close>

theorem Dense_backward_pass_trainable_gate:
  assumes call: "Dense_backward_pass L g loss_grad il = (r, L', g')"
  shows "(dense.optimizer L \<noteq> None \<longrightarrow>
            ((\<exists>d. nodes g' = nodes g @ [d] \<and> op d = ''backward_pass_dense'') = trainable L)
          \<and> ((nodes g' \<noteq> nodes g) = trainable L)
          \<and> (\<exists>v. r = Inr v))
       \<and> (dense.optimizer L \<noteq> None \<and> trainable L \<longrightarrow>
            r = Inr (PNode (length (nodes g)))
          \<and> L' = L\<lparr>backward_pass := Some (length (nodes g))\<rparr>)
       \<and> (\<not> trainable L \<longrightarrow> r = Inr (node_val (backward_pass L)) \<and> L' = L \<and> g' = g)"
  using call
  by (auto simp: Dense_backward_pass_def declare_node_def node_val_def Let_def
        split: if_splits option.splits)

text \<open>An initialised trainable layer declares one node; a frozen one returns its stored handle.\<close>

theorem Dense_backward_pass_trainable_gate_witness:
  "Dense_backward_pass ((Dense_init 4 (Some [3]))\<lparr>dense.optimizer := Some plain_optimizer\<rparr>)
      empty_engine (PNode 5) ''False''
    = (Inr (PNode 0),
       (Dense_init 4 (Some [3]))\<lparr>dense.optimizer := Some plain_optimizer, backward_pass := Some 0\<rparr>,
       \<lparr>nodes = [\<lparr>op = ''backward_pass_dense'', arg = PNode 5,
                     kwargs = [(''layer_input'', PNone), (''optimizer'', PDict []),
                               (''data'', PNone), (''input_layer'', PStr ''False'')]\<rparr>],
          persisted = []\<rparr>)
   \<and> Dense_backward_pass ((Dense_init 4 (Some [3]))\<lparr>trainable := False, backward_pass := Some 7\<rparr>)
      empty_engine (PNode 5) ''False''
    = (Inr (PNode 7), (Dense_init 4 (Some [3]))\<lparr>trainable := False, backward_pass := Some 7\<rparr>,
       empty_engine)"
proof -
  have h1: "Dense_backward_pass ((Dense_init 4 (Some [3]))\<lparr>dense.optimizer := Some plain_optimizer\<rparr>)
      empty_engine (PNode 5) ''False''
    = (Inr (PNode 0),
       (Dense_init 4 (Some [3]))\<lparr>dense.optimizer := Some plain_optimizer, backward_pass := Some 0\<rparr>,
       \<lparr>nodes = [\<lparr>op = ''backward_pass_dense'', arg = PNode 5,
                     kwargs = [(''layer_input'', PNone), (''optimizer'', PDict []),
                               (''data'', PNone), (''input_layer'', PStr ''False'')]\<rparr>],
          persisted = []\<rparr>)"
    by (simp add: Dense_backward_pass_def Dense_init_def declare_node_def node_val_def
          empty_engine_def plain_optimizer_def)
  have h2: "Dense_backward_pass ((Dense_init 4 (Some [3]))\<lparr>trainable := False, backward_pass := Some 7\<rparr>)
      empty_engine (PNode 5) ''False''
    = (fst (Dense_backward_pass ((Dense_init 4 (Some [3]))\<lparr>trainable := False, backward_pass := Some 7\<rparr>)
            empty_engine (PNode 5) ''False''),
       fst (snd (Dense_backward_pass ((Dense_init 4 (Some [3]))\<lparr>trainable := False, backward_pass := Some 7\<rparr>)
            empty_engine (PNode 5) ''False'')),
       snd (snd (Dense_backward_pass ((Dense_init 4 (Some [3]))\<lparr>trainable := False, backward_pass := Some 7\<rparr>)
            empty_engine (PNode 5) ''False'')))"
    by simp
  show ?thesis
    using h1 Dense_backward_pass_trainable_gate [OF h1] Dense_backward_pass_trainable_gate [OF h2]
    by (simp add: Dense_init_def node_val_def prod_eq_iff)
qed

text \<open>
  A trainable Dense layer on which \<^verbatim>\<open>initialize\<close> was never called has no
  \<open>optimizer\<close> attribute: the call raises \<^verbatim>\<open>AttributeError\<close> and declares nothing.
\<close>

theorem Dense_backward_pass_uninitialised_counterexample:
  "trainable (Dense_init 4 (Some [3]))
   \<and> Dense_backward_pass (Dense_init 4 (Some [3])) empty_engine (PNode 5) ''False''
       = (Inl AttributeError, Dense_init 4 (Some [3]), empty_engine)"
  by (simp add: Dense_backward_pass_def Dense_init_def)

subsection \<open>The backward declaration of BatchNormalization\<close>




subsection \<open>Persisting weights\<close>

text \<open>
  What the three classes with trainable state request: \<^verbatim>\<open>persist_op\<close> on the forward
  handle, then on the backward handle, under \<open>name_forward_pass\<close> and
  \<open>name_backward_pass\<close>.
\<close>

lemma persist_both_requests:
  assumes "forward_pass L = Some f" and "backward_pass L = Some b" and "layer_name L = Some name"
  shows "persist_both L g
        = (Inr (), g\<lparr>persisted := persisted g @ [(f, name @ ''_forward_pass''),
                                                 (b, name @ ''_backward_pass'')]\<rparr>)"
  using assms by (simp add: persist_both_def persist_op_def Let_def)

lemma persist_weights_trainable_state:
  "persist_weights (Dense L1) g = persist_both L1 g
   \<and> persist_weights (BatchNormalization L2) g = persist_both L2 g
   \<and> persist_weights (Conv2D L3) g = persist_both L3 g"
  by (simp add: Dense_persist_weights_def BatchNormalization_persist_weights_def
        Conv2D_persist_weights_def)

text \<open>
  C7. \<^verbatim>\<open>persist_weights\<close> is a no-op for \<^verbatim>\<open>Dropout\<close>, \<^verbatim>\<open>Activation\<close> and
  \<^verbatim>\<open>Flatten\<close>, which define it as \<^verbatim>\<open>pass\<close>. \<^verbatim>\<open>MaxPooling2D\<close> does not define it:
  on a pooling layer the call raises \<^verbatim>\<open>AttributeError\<close> instead of doing nothing.
\<close>

theorem MaxPooling2D_persist_weights_raises:
  "persist_weights (MaxPooling2D M) g = (Inl AttributeError, g)
   \<and> persist_weights (Dropout D) g = (Inr (), g)
   \<and> persist_weights (Activation A) g = (Inr (), g)
   \<and> persist_weights (Flatten F) g = (Inr (), g)"
  by (simp add: Dropout_persist_weights_def Activation_persist_weights_def
        Flatten_persist_weights_def)

end
